theory Spec2Isabelle
  imports Complex_Main
begin

section \<open>JavaScript numbers\<close>

text \<open>
  A JavaScript number is an IEEE double. Its finite values are reals here and the two
  signed zeros are one. The three special values that a division by zero produces are
  kept, because the components below divide without testing the divisor. In the
  quotients of the cost bars and of the edge loads the result of an operation is taken
  as exact; in the projection of the grid, whose additivity depends on it, every
  operation rounds as the machine does.
\<close>

datatype jsnum = NaN | NegInf | Fin real | PosInf

text \<open>\<^verbatim>\<open>a / b\<close>: a finite dividend over zero gives an infinity of its sign, \<^verbatim>\<open>0 / 0\<close> is NaN.\<close>

fun js_div :: "jsnum \<Rightarrow> jsnum \<Rightarrow> jsnum" where
  "js_div (Fin a) (Fin b) =
     (if b \<noteq> 0 then Fin (a / b)
      else if 0 < a then PosInf else if a < 0 then NegInf else NaN)"
| "js_div (Fin a) PosInf = Fin 0"
| "js_div (Fin a) NegInf = Fin 0"
| "js_div PosInf (Fin b) = (if 0 \<le> b then PosInf else NegInf)"
| "js_div NegInf (Fin b) = (if 0 \<le> b then NegInf else PosInf)"
| "js_div _ _ = NaN"

text \<open>\<^verbatim>\<open>a * b\<close>: an infinity times zero is NaN.\<close>

fun js_mul :: "jsnum \<Rightarrow> jsnum \<Rightarrow> jsnum" where
  "js_mul (Fin a) (Fin b) = Fin (a * b)"
| "js_mul PosInf (Fin b) = (if 0 < b then PosInf else if b < 0 then NegInf else NaN)"
| "js_mul NegInf (Fin b) = (if 0 < b then NegInf else if b < 0 then PosInf else NaN)"
| "js_mul (Fin a) PosInf = (if 0 < a then PosInf else if a < 0 then NegInf else NaN)"
| "js_mul (Fin a) NegInf = (if 0 < a then NegInf else if a < 0 then PosInf else NaN)"
| "js_mul PosInf PosInf = PosInf"
| "js_mul NegInf NegInf = PosInf"
| "js_mul PosInf NegInf = NegInf"
| "js_mul NegInf PosInf = NegInf"
| "js_mul _ _ = NaN"

text \<open>\<^verbatim>\<open>Math.max\<close> and \<^verbatim>\<open>Math.min\<close> of two arguments: NaN as soon as one argument is NaN.\<close>

fun Math_max :: "jsnum \<Rightarrow> jsnum \<Rightarrow> jsnum" where
  "Math_max NaN _ = NaN"
| "Math_max _ NaN = NaN"
| "Math_max PosInf _ = PosInf"
| "Math_max _ PosInf = PosInf"
| "Math_max NegInf b = b"
| "Math_max a NegInf = a"
| "Math_max (Fin a) (Fin b) = Fin (max a b)"

fun Math_min :: "jsnum \<Rightarrow> jsnum \<Rightarrow> jsnum" where
  "Math_min NaN _ = NaN"
| "Math_min _ NaN = NaN"
| "Math_min NegInf _ = NegInf"
| "Math_min _ NegInf = NegInf"
| "Math_min PosInf b = b"
| "Math_min a PosInf = a"
| "Math_min (Fin a) (Fin b) = Fin (min a b)"

text \<open>\<^verbatim>\<open>a > b\<close>: every comparison with NaN is false.\<close>

fun js_gt :: "jsnum \<Rightarrow> jsnum \<Rightarrow> bool" where
  "js_gt NaN _ = False"
| "js_gt _ NaN = False"
| "js_gt NegInf _ = False"
| "js_gt _ PosInf = False"
| "js_gt PosInf _ = True"
| "js_gt (Fin a) NegInf = True"
| "js_gt (Fin a) (Fin b) = (b < a)"

subsection \<open>Rounding to a double\<close>

text \<open>
  Round half to even, to an integer: the rounding of the significand.
\<close>

definition rne :: "real \<Rightarrow> int" where
  "rne t =
     (let f = \<lfloor>t\<rfloor>; d = t - of_int f
      in if d < 1 / 2 then f else if 1 / 2 < d then f + 1 else if even f then f else f + 1)"

text \<open>
  The binary exponent of a positive \<open>x\<close>, the \<open>e\<close> with \<open>2^e \<le> x < 2^(e+1)\<close>, found by
  halving or doubling at most \<open>n\<close> times.
\<close>

fun expo :: "nat \<Rightarrow> real \<Rightarrow> int" where
  "expo 0 x = 0"
| "expo (Suc n) x =
     (if 2 \<le> x then expo n (x / 2) + 1
      else if x < 1 then expo n (2 * x) - 1
      else 0)"

text \<open>
  The double nearest to a real \<open>x\<close>, ties to the even significand: 53 significant bits
  from the exponent of \<open>x\<close>, and the fixed spacing \<open>2^-1074\<close> of the subnormal numbers
  below \<open>2^-1022\<close>. It is the result of a machine operation whose exact result is \<open>x\<close>,
  for every \<open>x\<close> below the overflow threshold \<open>2^1024\<close>; the projection of finite grid
  coordinates stays far below it.
\<close>

definition double_round :: "real \<Rightarrow> real" where
  "double_round x =
     (if x = 0 then 0
      else let e = max (expo 1100 \<bar>x\<bar>) (- 1022);
               u = 2 powi (e - 52)
           in sgn x * (of_int (rne (\<bar>x\<bar> / u)) * u))"

text \<open>\<^verbatim>\<open>a + b\<close>, \<^verbatim>\<open>a - b\<close> and \<^verbatim>\<open>a * b\<close> on doubles.\<close>

definition fadd :: "real \<Rightarrow> real \<Rightarrow> real" where
  "fadd a b = double_round (a + b)"

definition fsub :: "real \<Rightarrow> real \<Rightarrow> real" where
  "fsub a b = double_round (a - b)"

definition fmul :: "real \<Rightarrow> real \<Rightarrow> real" where
  "fmul a b = double_round (a * b)"

section \<open>Number.prototype.toFixed\<close>

text \<open>
  \<^verbatim>\<open>v.toFixed(d)\<close> for a finite \<open>v\<close>: the sign of a negative \<open>v\<close>, then the integer
  nearest to \<open>\<bar>v\<bar> * 10^d\<close> (the larger one on a tie) written with \<open>d\<close> digits after
  the point. From \<open>10^21\<close> on JavaScript switches to exponent notation, whose digits
  are those of the double and are not reproduced: the value is kept as it is.
\<close>

datatype shown = Fixed string | Exponent real

definition digit :: "nat \<Rightarrow> char" where
  "digit n = ''0123456789'' ! (n mod 10)"

fun nat_digits :: "nat \<Rightarrow> string" where
  "nat_digits n = (if n < 10 then [digit n] else nat_digits (n div 10) @ [digit n])"

definition pad_zeros :: "nat \<Rightarrow> string \<Rightarrow> string" where
  "pad_zeros d s = replicate (d - length s) CHR ''0'' @ s"

definition toFixed :: "nat \<Rightarrow> real \<Rightarrow> shown" where
  "toFixed d v =
     (if 10 ^ 21 \<le> \<bar>v\<bar> then Exponent v
      else let n = nat \<lfloor>\<bar>v\<bar> * 10 ^ d + 1 / 2\<rfloor>;
               whole = nat_digits (n div 10 ^ d);
               frac = (if d = 0 then [] else CHR ''.'' # pad_zeros d (nat_digits (n mod 10 ^ d)))
           in Fixed ((if v < 0 then ''-'' else []) @ whole @ frac))"

section \<open>StatsPanel.jsx: the cost breakdown\<close>

text \<open>
  The route result as the server sends it. A field that the payload lacks is \<open>None\<close>
  (JavaScript's \<^verbatim>\<open>undefined\<close>); \<^verbatim>\<open>path\<close> and \<^verbatim>\<open>geometry\<close> may also hold a value that is
  not an array.
\<close>

datatype 'a js_array = Missing | NotArray | Arr "'a list"

record latlng =
  lat :: real
  lng :: real

record cost_vector =
  total_cost :: "real option"
  time_cost :: "real option"
  congestion_penalty :: "real option"
  emission_cost :: "real option"
  social_cost :: "real option"
  travel_time_hours :: "real option"

record route_result =
  stats :: "cost_vector option"
  path_nodes :: "string list option"
  path :: "string js_array"
  geometry :: "latlng js_array"

text \<open>The destructuring default \<^verbatim>\<open>field = 0\<close>: it applies to an absent field only.\<close>

definition default0 :: "real option \<Rightarrow> real" where
  "default0 f = (case f of None \<Rightarrow> 0 | Some v \<Rightarrow> v)"

text \<open>
  \<^verbatim>\<open>const getPercent = (val) => Math.min(100, Math.max(5, (val / total_cost) * 100))\<close>,
  with the \<^verbatim>\<open>total_cost\<close> it closes over as first argument. StatsPanel defines it and
  never calls it.
\<close>

definition getPercent :: "real \<Rightarrow> real \<Rightarrow> jsnum" where
  "getPercent tot val =
     Math_min (Fin 100) (Math_max (Fin 5) (js_mul (js_div (Fin val) (Fin tot)) (Fin 100)))"

record cost_bar =
  bar_label :: string
  bar_value :: shown
  bar_width :: jsnum
  bar_color :: string

text \<open>
  \<^verbatim>\<open>function CostBar({ label, value, total, color, icon })\<close>: the width is
  \<^verbatim>\<open>(value / total) * 100\<close> percent, as computed.
\<close>

definition CostBar :: "string \<Rightarrow> real \<Rightarrow> real \<Rightarrow> string \<Rightarrow> cost_bar" where
  "CostBar label val tot color =
     \<lparr>bar_label = label, bar_value = toFixed 2 val,
      bar_width = js_mul (js_div (Fin val) (Fin tot)) (Fin 100), bar_color = color\<rparr>"

record stats_view =
  travel_time_text :: shown
  total_cost_text :: shown
  bars :: "cost_bar list"
  footer :: string

text \<open>
  \<^verbatim>\<open>export default function StatsPanel({ data })\<close>. \<open>None\<close> is the component returning
  \<^verbatim>\<open>null\<close>: nothing is rendered.
\<close>

definition StatsPanel :: "route_result option \<Rightarrow> stats_view option" where
  "StatsPanel data =
     (case data of
        None \<Rightarrow> None
      | Some d \<Rightarrow>
          (case stats d of
             None \<Rightarrow> None
           | Some st \<Rightarrow>
               let tot = default0 (total_cost st)
               in Some
                 \<lparr>travel_time_text = toFixed 1 (default0 (travel_time_hours st) * 60),
                  total_cost_text = toFixed 2 tot,
                  bars =
                    [CostBar ''Time'' (default0 (time_cost st)) tot ''#3b82f6'',
                     CostBar ''Congestion'' (default0 (congestion_penalty st)) tot ''#f59e0b'',
                     CostBar ''Emission'' (default0 (emission_cost st)) tot ''#10b981'',
                     CostBar ''Social'' (default0 (social_cost st)) tot ''#8b5cf6''],
                  footer =
                    (case path_nodes d of
                       None \<Rightarrow> ''Google Maps Route''
                     | Some ns \<Rightarrow>
                         if length ns > 0 then ''Path Nodes: '' @ nat_digits (length ns)
                         else ''Google Maps Route'')\<rparr>))"

section \<open>MapComponent.jsx, Leaflet variant: the grid network\<close>

record node =
  node_id :: string
  node_x :: real
  node_y :: real

record edge =
  source :: string
  target :: string
  capacity :: real
  current_flow :: real

record graph =
  nodes :: "node list"
  edges :: "edge list"

text \<open>
  The literals \<^verbatim>\<open>0.005\<close>, \<^verbatim>\<open>51.505\<close> and \<^verbatim>\<open>-0.09\<close> denote the doubles nearest to them.
\<close>

definition SCALE :: real where
  "SCALE = double_round (5 / 1000)"

definition centerLat :: real where
  "centerLat = double_round (51505 / 1000)"

definition centerLng :: real where
  "centerLng = double_round (- (9 / 100))"

text \<open>
  \<^verbatim>\<open>getLatLng = (x, y) => [centerLat + y * SCALE, centerLng + x * SCALE]\<close>, each product
  and each sum a machine operation.
\<close>

definition getLatLng :: "real \<Rightarrow> real \<Rightarrow> real \<times> real" where
  "getLatLng gx gy = (fadd centerLat (fmul gy SCALE), fadd centerLng (fmul gx SCALE))"

text \<open>
  \<^verbatim>\<open>getNodePos = (id) => { const n = graph.nodes.find(n => n.id === id);
  return n ? getLatLng(n.x, n.y) : [0, 0]; }\<close>
\<close>

definition getNodePos :: "graph \<Rightarrow> string \<Rightarrow> real \<times> real" where
  "getNodePos g i =
     (case find (\<lambda>n. node_id n = i) (nodes g) of
        Some n \<Rightarrow> getLatLng (node_x n) (node_y n)
      | None \<Rightarrow> (0, 0))"

record path_options =
  color :: string
  weight :: nat
  opacity :: real
  dashArray :: "string option"

record polyline =
  positions :: "(real \<times> real) list"
  pathOptions :: path_options

text \<open>The load of an edge, \<^verbatim>\<open>edge.current_flow / edge.capacity\<close>.\<close>

definition edge_load :: "edge \<Rightarrow> jsnum" where
  "edge_load e = js_div (Fin (current_flow e)) (Fin (capacity e))"

text \<open>
  The body of \<^verbatim>\<open>graph.edges.map((edge, i) => ...)\<close>: the two end points, the load, the
  colour and weight chosen by the two comparisons, and the line.
\<close>

definition edge_polyline :: "graph \<Rightarrow> edge \<Rightarrow> polyline" where
  "edge_polyline g e =
     (let start = getNodePos g (source e);
          end_pos = getNodePos g (target e);
          load = edge_load e;
          (c, w) =
            (if js_gt load (Fin (8 / 10)) then (''#ef4444'', 4)
             else if js_gt load (Fin (5 / 10)) then (''#f59e0b'', 3)
             else (''#94a3b8'', 2))
      in \<lparr>positions = [start, end_pos],
          pathOptions = \<lparr>color = c, weight = w, opacity = 8 / 10, dashArray = None\<rparr>\<rparr>)"

record circle_marker =
  center :: "real \<times> real"
  radius :: nat
  popup :: string

definition node_marker :: "node \<Rightarrow> circle_marker" where
  "node_marker n =
     \<lparr>center = getLatLng (node_x n) (node_y n), radius = 4, popup = node_id n\<rparr>"

text \<open>
  What a component throws. \<^verbatim>\<open>err.response?.data?.detail\<close> and \<^verbatim>\<open>err.message\<close> are the two
  things the handlers read from it; an error raised by the language itself has no
  response. The message texts of the TypeErrors stand for the engine's own wording.
\<close>

record http_data =
  detail :: "string option"

record http_response =
  data :: "http_data option"

record js_exn =
  response :: "http_response option"
  message :: string

definition TypeError :: "string \<Rightarrow> js_exn" where
  "TypeError msg = \<lparr>response = None, message = msg\<rparr>"

record leaflet_view =
  edge_lines :: "polyline list"
  node_markers :: "circle_marker list"
  route_line :: "polyline option"

text \<open>
  \<^verbatim>\<open>export default function MapComponent({ graph, routeData })\<close>, the layers drawn over
  the tile layer. \<^verbatim>\<open>routeData.path.map(...)\<close> is evaluated whenever \<^verbatim>\<open>routeData\<close> is there:
  on a \<^verbatim>\<open>path\<close> that is absent or not an array the render throws.
\<close>

definition MapComponent_leaflet :: "graph \<Rightarrow> route_result option \<Rightarrow> js_exn + leaflet_view" where
  "MapComponent_leaflet g routeData =
     (let es = map (edge_polyline g) (edges g);
          ns = map node_marker (nodes g)
      in case routeData of
           None \<Rightarrow> Inr \<lparr>edge_lines = es, node_markers = ns, route_line = None\<rparr>
         | Some rd \<Rightarrow>
             (case path rd of
                Missing \<Rightarrow>
                  Inl (TypeError ''Cannot read properties of undefined (reading map)'')
              | NotArray \<Rightarrow> Inl (TypeError ''routeData.path.map is not a function'')
              | Arr ids \<Rightarrow>
                  Inr \<lparr>edge_lines = es, node_markers = ns,
                       route_line =
                         Some \<lparr>positions = map (getNodePos g) ids,
                               pathOptions =
                                 \<lparr>color = ''#10b981'', weight = 6, opacity = 9 / 10,
                                  dashArray = Some ''10, 10''\<rparr>\<rparr>\<rparr>))"

section \<open>MapComponent.jsx, Google Maps variant: the route geometry\<close>

record google_line =
  line_path :: "latlng list"
  strokeColor :: string
  strokeOpacity :: real
  strokeWeight :: nat
  zIndex :: nat

record google_view =
  route_polyline :: "google_line option"
  start_marker :: "latlng option"
  end_marker :: "latlng option"

text \<open>
  The route layer of the Google Maps \<^verbatim>\<open>MapComponent\<close>: \<^verbatim>\<open>path\<close> is the geometry when that
  is a non-empty array and \<^verbatim>\<open>[]\<close> otherwise; a non-empty path gives the line and the two
  markers, anything else \<^verbatim>\<open>null\<close>. The graph is not drawn by this variant.
\<close>

definition MapComponent_google :: "graph \<Rightarrow> route_result option \<Rightarrow> google_view" where
  "MapComponent_google g routeData =
     (case routeData of
        None \<Rightarrow> \<lparr>route_polyline = None, start_marker = None, end_marker = None\<rparr>
      | Some rd \<Rightarrow>
          (let p = (case geometry rd of
                      Arr pts \<Rightarrow> if length pts > 0 then pts else []
                    | _ \<Rightarrow> [])
           in if length p > 0
              then \<lparr>route_polyline =
                      Some \<lparr>line_path = p, strokeColor = ''#10b981'', strokeOpacity = 1,
                            strokeWeight = 6, zIndex = 100\<rparr>,
                    start_marker = Some (p ! 0),
                    end_marker = Some (p ! (length p - 1))\<rparr>
              else \<lparr>route_polyline = None, start_marker = None, end_marker = None\<rparr>))"

text \<open>
  \<^verbatim>\<open>MapBounds\<close> of the same variant: the points the viewport is fitted to, the route
  geometry first and the graph nodes when the route gives none. \<^verbatim>\<open>fitBounds\<close> is called
  when the list is not empty; the whole effect runs inside \<^verbatim>\<open>try\<close>/\<^verbatim>\<open>catch\<close>.
\<close>

definition MapBounds_points :: "node list \<Rightarrow> route_result option \<Rightarrow> latlng list" where
  "MapBounds_points ns routeData =
     (let route_pts =
            (case routeData of
               None \<Rightarrow> []
             | Some rd \<Rightarrow> (case geometry rd of Arr pts \<Rightarrow> pts | _ \<Rightarrow> []))
      in if route_pts \<noteq> [] then route_pts
         else map (\<lambda>n. \<lparr>lat = node_y n, lng = node_x n\<rparr>) ns)"

section \<open>App and ControlPanel: requests, responses and the stored state\<close>

record location =
  address :: string
  loc_lat :: real
  loc_lng :: real

datatype request =
  LegacyRoute string string int
  | CoordRoute real real real real int

text \<open>
  The state of the page: App's two slots (\<^verbatim>\<open>routeData\<close>, \<^verbatim>\<open>graph\<close>), the fields of the two
  ControlPanel variants (addresses in the legacy one, resolved locations in the
  coordinate one; \<^verbatim>\<open>time\<close>, \<^verbatim>\<open>loading\<close> and \<^verbatim>\<open>status\<close> in both), what \<^verbatim>\<open>alert\<close> and
  \<^verbatim>\<open>console.error\<close> have shown, and the network: the bodies posted to \<^verbatim>\<open>/route\<close> and the
  requests still waiting for their response, numbered in the order of issue.
\<close>

record ui_state =
  routeData :: "route_result option"
  graph :: graph
  startAddr :: string
  endAddr :: string
  startLocation :: "location option"
  endLocation :: "location option"
  time :: int
  loading :: bool
  status :: string
  alerts :: "string list"
  console :: "(string \<times> js_exn) list"
  sent :: "request list"
  inflight :: "nat list"
  issued :: nat

definition initial_ui :: ui_state where
  "initial_ui =
     \<lparr>routeData = None, graph = \<lparr>nodes = [], edges = []\<rparr>, startAddr = [], endAddr = [],
      startLocation = None, endLocation = None, time = 8, loading = False, status = [],
      alerts = [], console = [], sent = [], inflight = [], issued = 0\<rparr>"

text \<open>\<^verbatim>\<open>err.response?.data?.detail || err.message\<close>: an empty detail is falsy.\<close>

definition error_msg :: "js_exn \<Rightarrow> string" where
  "error_msg err =
     (case Option.bind (Option.bind (response err) data) detail of
        Some d \<Rightarrow> if d \<noteq> [] then d else message err
      | None \<Rightarrow> message err)"

subsection \<open>The coordinate-mode ControlPanel\<close>

text \<open>
  \<^verbatim>\<open>handleRoute\<close> up to its \<^verbatim>\<open>await api.post('/route', payload)\<close>: nothing happens unless
  both locations are resolved; otherwise the request is posted and the panel is loading.
  The function does not look at \<^verbatim>\<open>loading\<close>.
\<close>

definition handleRoute :: "ui_state \<Rightarrow> ui_state" where
  "handleRoute s =
     (case (startLocation s, endLocation s) of
        (Some a, Some b) \<Rightarrow>
          s\<lparr>loading := True,
            status := ''Downloading map & Computing route... (this may take a moment)'',
            sent := sent s @ [CoordRoute (loc_lat a) (loc_lng a) (loc_lat b) (loc_lng b) (time s)],
            inflight := inflight s @ [issued s],
            issued := Suc (issued s)\<rparr>
      | _ \<Rightarrow> s)"

text \<open>
  The rest of \<^verbatim>\<open>handleRoute\<close>, run when the response of request \<open>k\<close> arrives: the end of
  the \<^verbatim>\<open>try\<close> block on a result, the \<^verbatim>\<open>catch\<close> block on a failure, \<^verbatim>\<open>finally\<close> after either.
  No response arrives for a request that is not waiting.
\<close>

definition handleRoute_settled :: "nat \<Rightarrow> js_exn + route_result \<Rightarrow> ui_state \<Rightarrow> ui_state" where
  "handleRoute_settled k outcome s =
     (if k \<notin> set (inflight s) then s
      else let s1 = s\<lparr>inflight := removeAll k (inflight s)\<rparr>;
               s2 = (case outcome of
                       Inr res \<Rightarrow> s1\<lparr>routeData := Some res, status := ''Route computed!''\<rparr>
                     | Inl err \<Rightarrow>
                         s1\<lparr>console := console s1 @ [([], err)],
                            alerts := alerts s1 @
                              [''Error: '' @ error_msg err @ ''. Make sure backend is running.''],
                            status := ''Error occurred.''\<rparr>)
           in s2\<lparr>loading := False\<rparr>)"

text \<open>\<^verbatim>\<open>disabled={loading || !startLocation || !endLocation}\<close> on the Compute Route button.\<close>

definition button_disabled :: "ui_state \<Rightarrow> bool" where
  "button_disabled s = (loading s \<or> startLocation s = None \<or> endLocation s = None)"

text \<open>
  What can happen to the page: a click on the button, the only caller of \<^verbatim>\<open>handleRoute\<close>
  (nothing when the button is disabled), the response of a request, the selection of a
  location, a move of the time slider.
\<close>

datatype event =
  Click
  | Settled nat "js_exn + route_result"
  | SelectStart location
  | SelectEnd location
  | SetTime int

fun step :: "ui_state \<Rightarrow> event \<Rightarrow> ui_state" where
  "step s Click = (if button_disabled s then s else handleRoute s)"
| "step s (Settled k outcome) = handleRoute_settled k outcome s"
| "step s (SelectStart l) = s\<lparr>startLocation := Some l\<rparr>"
| "step s (SelectEnd l) = s\<lparr>endLocation := Some l\<rparr>"
| "step s (SetTime t) = s\<lparr>time := t\<rparr>"

definition run :: "ui_state \<Rightarrow> event list \<Rightarrow> ui_state" where
  "run s evs = foldl step s evs"

subsection \<open>The legacy ControlPanel\<close>

record geocode_data =
  geo_node_id :: "string option"

text \<open>
  The \<^verbatim>\<open>try\<close> block of the legacy \<^verbatim>\<open>handleRoute\<close>, given what the two \<^verbatim>\<open>geocode\<close> calls and
  the \<^verbatim>\<open>/route\<close> call answer: the state it leaves and the error it throws, if any. A
  geocode answer without \<^verbatim>\<open>node_id\<close> makes \<^verbatim>\<open>startNode.toString()\<close> throw.
\<close>

definition legacy_try ::
  "js_exn + geocode_data \<Rightarrow> js_exn + geocode_data \<Rightarrow> js_exn + route_result \<Rightarrow>
   ui_state \<Rightarrow> ui_state \<times> js_exn option" where
  "legacy_try geo1 geo2 post s =
     (case geo1 of
        Inl err \<Rightarrow> (s, Some err)
      | Inr startRes \<Rightarrow>
          (case geo2 of
             Inl err \<Rightarrow> (s, Some err)
           | Inr endRes \<Rightarrow>
               let s1 = s\<lparr>status := ''Computing optimal route...''\<rparr>
               in (case (geo_node_id startRes, geo_node_id endRes) of
                     (Some a, Some b) \<Rightarrow>
                       let s2 = s1\<lparr>sent := sent s1 @ [LegacyRoute a b (time s1)]\<rparr>
                       in (case post of
                             Inl err \<Rightarrow> (s2, Some err)
                           | Inr res \<Rightarrow>
                               (s2\<lparr>routeData := Some res, status := ''Route computed!''\<rparr>, None))
                   | _ \<Rightarrow>
                       (s1, Some (TypeError
                          ''Cannot read properties of undefined (reading toString)'')))))"

text \<open>The legacy \<^verbatim>\<open>handleRoute\<close> from the click to the end of \<^verbatim>\<open>finally\<close>.\<close>

definition handleRoute_legacy ::
  "js_exn + geocode_data \<Rightarrow> js_exn + geocode_data \<Rightarrow> js_exn + route_result \<Rightarrow>
   ui_state \<Rightarrow> ui_state" where
  "handleRoute_legacy geo1 geo2 post s =
     (let s0 = s\<lparr>loading := True, status := ''Geocoding addresses...''\<rparr>;
          (s1, thrown) = legacy_try geo1 geo2 post s0;
          s2 = (case thrown of
                  None \<Rightarrow> s1
                | Some err \<Rightarrow>
                    s1\<lparr>console := console s1 @ [([], err)],
                       alerts := alerts s1 @ [''Error: '' @ error_msg err],
                       status := ''Error occurred.''\<rparr>)
      in s2\<lparr>loading := False\<rparr>)"

text \<open>\<^verbatim>\<open>disabled={loading || !startAddr || !endAddr}\<close> on the legacy button.\<close>

definition legacy_button_disabled :: "ui_state \<Rightarrow> bool" where
  "legacy_button_disabled s = (loading s \<or> startAddr s = [] \<or> endAddr s = [])"

subsection \<open>The layout poll of the legacy App\<close>

text \<open>
  \<^verbatim>\<open>api.get('/network/layout').then(res => { setGraph(res.data) })
  .catch(err => console.error("Failed to load graph", err))\<close>, given the answer.
\<close>

definition fetchGraph :: "ui_state \<Rightarrow> js_exn + graph \<Rightarrow> ui_state" where
  "fetchGraph s answer =
     (case answer of
        Inr g \<Rightarrow> s\<lparr>graph := g\<rparr>
      | Inl err \<Rightarrow> s\<lparr>console := console s @ [(''Failed to load graph'', err)]\<rparr>)"

text \<open>The page after the initial load and the poll ticks that follow, one answer each.\<close>

definition polls :: "ui_state \<Rightarrow> (js_exn + graph) list \<Rightarrow> ui_state" where
  "polls s answers = foldl fetchGraph s answers"

section \<open>The specification's notions and the inputs of the examples\<close>

text \<open>A cost vector with every absent field set to 0, as the specification reads one.\<close>

definition fill_missing :: "cost_vector \<Rightarrow> cost_vector" where
  "fill_missing st =
     \<lparr>total_cost = Some (default0 (total_cost st)),
      time_cost = Some (default0 (time_cost st)),
      congestion_penalty = Some (default0 (congestion_penalty st)),
      emission_cost = Some (default0 (emission_cost st)),
      social_cost = Some (default0 (social_cost st)),
      travel_time_hours = Some (default0 (travel_time_hours st))\<rparr>"

text \<open>
  The edge policy in the specification's words: a load above 0.8 is emphasized, a load
  in (0.5, 0.8] intermediate, any other load baseline. Positive infinity is above 0.8;
  NaN and negative infinity are in neither range.
\<close>

datatype emphasis = Baseline | Intermediate | Emphasized

definition emphasis_of_load :: "jsnum \<Rightarrow> emphasis" where
  "emphasis_of_load load =
     (case load of
        Fin l \<Rightarrow>
          if 8 / 10 < l then Emphasized
          else if 5 / 10 < l \<and> l \<le> 8 / 10 then Intermediate
          else Baseline
      | PosInf \<Rightarrow> Emphasized
      | _ \<Rightarrow> Baseline)"

text \<open>The colour and weight that the edge loop gives to each of the three.\<close>

fun emphasis_options :: "emphasis \<Rightarrow> string \<times> nat" where
  "emphasis_options Emphasized = (''#ef4444'', 4)"
| "emphasis_options Intermediate = (''#f59e0b'', 3)"
| "emphasis_options Baseline = (''#94a3b8'', 2)"

text \<open>
  The affine map of the specification, \<open>lat = centerLat + y * SCALE\<close> and
  \<open>lng = centerLng + x * SCALE\<close>, in exact arithmetic.
\<close>

definition project :: "real \<Rightarrow> real \<Rightarrow> real \<times> real" where
  "project gx gy = (centerLat + gy * SCALE, centerLng + gx * SCALE)"

text \<open>
  Difference and sum of two \<^verbatim>\<open>[lat, lng]\<close> pairs, in exact arithmetic and as the machine
  computes them.
\<close>

definition vsub :: "real \<times> real \<Rightarrow> real \<times> real \<Rightarrow> real \<times> real" where
  "vsub p q = (fst p - fst q, snd p - snd q)"

definition vadd :: "real \<times> real \<Rightarrow> real \<times> real \<Rightarrow> real \<times> real" where
  "vadd p q = (fst p + fst q, snd p + snd q)"

definition vsub_double :: "real \<times> real \<Rightarrow> real \<times> real \<Rightarrow> real \<times> real" where
  "vsub_double p q = (fsub (fst p) (fst q), fsub (snd p) (snd q))"

definition vadd_double :: "real \<times> real \<Rightarrow> real \<times> real \<Rightarrow> real \<times> real" where
  "vadd_double p q = (fadd (fst p) (fst q), fadd (snd p) (snd q))"

text \<open>The options of the route line of the Leaflet variant, and the empty Google view.\<close>

definition route_options :: path_options where
  "route_options =
     \<lparr>color = ''#10b981'', weight = 6, opacity = 9 / 10, dashArray = Some ''10, 10''\<rparr>"

definition no_route :: google_view where
  "no_route = \<lparr>route_polyline = None, start_marker = None, end_marker = None\<rparr>"

text \<open>
  At most one request waits for its response; it is the request issued last, and the
  panel is loading while it waits.
\<close>

definition one_at_a_time :: "ui_state \<Rightarrow> bool" where
  "one_at_a_time s =
     (inflight s = [] \<or> (loading s \<and> (\<exists>k. inflight s = [k] \<and> Suc k = issued s)))"

text \<open>
  The legacy request fails with \<open>err\<close>: at the first geocode call, at the second, at the
  conversion of a node id that the answer lacks, or at the route call.
\<close>

definition legacy_fails ::
  "js_exn + geocode_data \<Rightarrow> js_exn + geocode_data \<Rightarrow> js_exn + route_result \<Rightarrow>
   js_exn \<Rightarrow> bool" where
  "legacy_fails geo1 geo2 post err =
     (case geo1 of
        Inl e1 \<Rightarrow> err = e1
      | Inr a \<Rightarrow>
          (case geo2 of
             Inl e2 \<Rightarrow> err = e2
           | Inr b \<Rightarrow>
               if geo_node_id a = None \<or> geo_node_id b = None
               then err = TypeError ''Cannot read properties of undefined (reading toString)''
               else (case post of Inl e3 \<Rightarrow> err = e3 | Inr res \<Rightarrow> False)))"

text \<open>The graph of the last poll that succeeded, if one did.\<close>

fun last_graph :: "(js_exn + graph) list \<Rightarrow> graph option" where
  "last_graph [] = None"
| "last_graph (a # as) =
     (case last_graph as of
        Some g \<Rightarrow> Some g
      | None \<Rightarrow> (case a of Inr g \<Rightarrow> Some g | Inl err \<Rightarrow> None))"

text \<open>
  A two-node grid whose first edge has no capacity, route payloads with the given
  \<^verbatim>\<open>path\<close> and \<^verbatim>\<open>geometry\<close>, a result that carries only its total cost, two places, a
  server error with a detail and a transport error without a response.
\<close>

definition grid :: graph where
  "grid =
     \<lparr>nodes = [\<lparr>node_id = ''a'', node_x = 0, node_y = 0\<rparr>,
               \<lparr>node_id = ''b'', node_x = 1, node_y = 2\<rparr>],
      edges = [\<lparr>source = ''a'', target = ''b'', capacity = 0, current_flow = 5\<rparr>,
               \<lparr>source = ''b'', target = ''a'', capacity = 10, current_flow = 6\<rparr>]\<rparr>"

definition payload :: "string js_array \<Rightarrow> latlng js_array \<Rightarrow> route_result" where
  "payload p geo = \<lparr>stats = None, path_nodes = None, path = p, geometry = geo\<rparr>"

definition only_total :: route_result where
  "only_total =
     \<lparr>stats = Some \<lparr>total_cost = Some 10, time_cost = None, congestion_penalty = None,
        emission_cost = None, social_cost = None, travel_time_hours = None\<rparr>,
      path_nodes = None, path = Missing, geometry = Missing\<rparr>"

definition scenario_A :: route_result where
  "scenario_A =
     \<lparr>stats = Some \<lparr>total_cost = Some 10, time_cost = Some 6, congestion_penalty = Some 2,
        emission_cost = Some 1, social_cost = Some 1, travel_time_hours = Some (2 / 10)\<rparr>,
      path_nodes = None, path = Arr [''5'', ''7'', ''12''], geometry = Missing\<rparr>"

definition place_a :: location where
  "place_a = \<lparr>address = ''Empire State'', loc_lat = 40748 / 1000, loc_lng = - (73985 / 1000)\<rparr>"

definition place_b :: location where
  "place_b = \<lparr>address = ''Times Square'', loc_lat = 40758 / 1000, loc_lng = - (73985 / 1000)\<rparr>"

definition server_error :: js_exn where
  "server_error =
     \<lparr>response = Some \<lparr>data = Some \<lparr>detail = Some ''no path found''\<rparr>\<rparr>,
      message = ''Request failed with status code 500''\<rparr>"

definition network_error :: js_exn where
  "network_error = \<lparr>response = None, message = ''Network Error''\<rparr>"

text \<open>
  The coordinate-mode page with both places chosen; the same page showing a route while
  a second request waits; the legacy page with two addresses typed and a route shown.
\<close>

definition ready_ui :: ui_state where
  "ready_ui = run initial_ui [SelectStart place_a, SelectEnd place_b]"

definition shown_route :: ui_state where
  "shown_route =
     run ready_ui [Click, Settled 0 (Inr (payload (Arr [''5'', ''7'', ''12'']) Missing)), Click]"

definition legacy_ui :: ui_state where
  "legacy_ui =
     initial_ui\<lparr>startAddr := ''Wall St'', endAddr := ''Broadway'',
       routeData := Some (payload (Arr [''5'', ''7'', ''12'']) Missing)\<rparr>"

section \<open>The cost bars\<close>

lemma getPercent_pos: "0 < t \<Longrightarrow> getPercent t v = Fin (min 100 (max 5 (v / t * 100)))"
  by (simp add: getPercent_def)

lemma getPercent_zero:
  "getPercent 0 v = (if 0 < v then Fin 100 else if v < 0 then Fin 5 else NaN)"
  by (simp add: getPercent_def)

text \<open>
  The width that \<^verbatim>\<open>CostBar\<close> draws is not passed through \<^verbatim>\<open>getPercent\<close>: a component above
  the total gives a width above 100, a zero component a width of 0.
\<close>

lemma CostBar_width_unclamped:
  "bar_width (CostBar ''Time'' 150 100 ''#3b82f6'') = Fin 150
   \<and> bar_width (CostBar ''Time'' 0 100 ''#3b82f6'') = Fin 0"
  by (simp add: CostBar_def)

text \<open>
  C1, as amended. For a positive total \<open>t\<close>, \<^verbatim>\<open>getPercent\<close> of a component \<open>v\<close> is
  \<open>min 100 (max 5 (v / t * 100))\<close>; the four values it gives for the components of one
  cost vector lie in [5, 100] each and sum to at most 400. For a total that is zero or
  absent (the default makes it zero) there is no fallback to 0: the value is 100 for a
  positive component, 5 for a negative one and NaN for a zero one.
\<close>

theorem getPercent_clamp:
  "(0 < t \<longrightarrow> getPercent t v = Fin (min 100 (max 5 (v / t * 100))))
   \<and> (0 < t \<longrightarrow>
        (\<exists>p1 p2 p3 p4.
           getPercent t v1 = Fin p1 \<and> getPercent t v2 = Fin p2 \<and>
           getPercent t v3 = Fin p3 \<and> getPercent t v4 = Fin p4 \<and>
           (\<forall>p \<in> {p1, p2, p3, p4}. 5 \<le> p \<and> p \<le> 100) \<and>
           p1 + p2 + p3 + p4 \<le> 400))
   \<and> (topt = None \<or> topt = Some 0 \<longrightarrow>
        getPercent (default0 topt) v =
          (if 0 < v then Fin 100 else if v < 0 then Fin 5 else NaN))"
proof (intro conjI impI)
  assume "0 < t"
  then show "getPercent t v = Fin (min 100 (max 5 (v / t * 100)))"
    by (rule getPercent_pos)
next
  assume t: "0 < t"
  let ?c = "\<lambda>w. min 100 (max 5 (w / t * 100))"
  have bound: "5 \<le> ?c w \<and> ?c w \<le> 100" for w :: real
    by simp
  have "?c v1 + ?c v2 + ?c v3 + ?c v4 \<le> 400"
    using bound [of v1] bound [of v2] bound [of v3] bound [of v4] by linarith
  moreover have "\<forall>p \<in> {?c v1, ?c v2, ?c v3, ?c v4}. 5 \<le> p \<and> p \<le> 100"
    using bound by blast
  ultimately show "\<exists>p1 p2 p3 p4.
      getPercent t v1 = Fin p1 \<and> getPercent t v2 = Fin p2 \<and>
      getPercent t v3 = Fin p3 \<and> getPercent t v4 = Fin p4 \<and>
      (\<forall>p \<in> {p1, p2, p3, p4}. 5 \<le> p \<and> p \<le> 100) \<and> p1 + p2 + p3 + p4 \<le> 400"
    using getPercent_pos [OF t] by blast
next
  assume "topt = None \<or> topt = Some 0"
  then have "default0 topt = 0"
    by (auto simp: default0_def)
  then show "getPercent (default0 topt) v =
      (if 0 < v then Fin 100 else if v < 0 then Fin 5 else NaN)"
    by (simp add: getPercent_zero)
qed

theorem getPercent_clamp_witness:
  "getPercent 10 6 = Fin 60 \<and> getPercent 10 2 = Fin 20 \<and> getPercent 10 0 = Fin 5
   \<and> getPercent 10 15 = Fin 100 \<and> getPercent (default0 None) 6 = Fin 100"
  using getPercent_clamp [of 10 6 6 2 0 15 None] by (simp add: getPercent_def)

text \<open>
  With the total absent, a component of 6 gives 100 and not 0, and a component of 0
  gives NaN.
\<close>

theorem getPercent_zero_total_counterexample:
  "getPercent (default0 None) 6 = Fin 100 \<and> getPercent 0 6 \<noteq> Fin 0 \<and> getPercent 0 0 = NaN"
  by (simp add: getPercent_def default0_def)

section \<open>The stats panel on incomplete data\<close>

text \<open>The first end-to-end scenario of the specification: 12.0 minutes, bars at 60, 20, 10, 10.\<close>

lemma StatsPanel_scenario_A:
  "StatsPanel (Some scenario_A) =
     Some \<lparr>travel_time_text = Fixed ''12.0'', total_cost_text = Fixed ''10.00'',
       bars =
         [\<lparr>bar_label = ''Time'', bar_value = Fixed ''6.00'', bar_width = Fin 60,
            bar_color = ''#3b82f6''\<rparr>,
          \<lparr>bar_label = ''Congestion'', bar_value = Fixed ''2.00'', bar_width = Fin 20,
            bar_color = ''#f59e0b''\<rparr>,
          \<lparr>bar_label = ''Emission'', bar_value = Fixed ''1.00'', bar_width = Fin 10,
            bar_color = ''#10b981''\<rparr>,
          \<lparr>bar_label = ''Social'', bar_value = Fixed ''1.00'', bar_width = Fin 10,
            bar_color = ''#8b5cf6''\<rparr>],
       footer = ''Google Maps Route''\<rparr>"
  by (simp add: scenario_A_def StatsPanel_def Let_def default0_def CostBar_def toFixed_def
      digit_def pad_zeros_def)

lemma default0_fill [simp]: "default0 (Some (default0 f)) = default0 f"
  by (simp add: default0_def)

text \<open>
  C10. Without \<^verbatim>\<open>data\<close>, or without \<^verbatim>\<open>stats\<close> in it, StatsPanel renders nothing. With
  \<^verbatim>\<open>stats\<close> it renders a panel, the same panel as for the stats with every absent field
  set to 0; an absent \<^verbatim>\<open>travel_time_hours\<close> is shown as 0.0 minutes. No branch of the
  component throws on fields that are numbers or absent.
\<close>

theorem StatsPanel_missing_fields:
  "StatsPanel None = None
   \<and> (stats d = None \<longrightarrow> StatsPanel (Some d) = None)
   \<and> (stats d = Some st \<longrightarrow>
        StatsPanel (Some d) \<noteq> None
        \<and> StatsPanel (Some d) = StatsPanel (Some (d\<lparr>stats := Some (fill_missing st)\<rparr>)))
   \<and> (stats d = Some st \<and> travel_time_hours st = None \<longrightarrow>
        (\<exists>p. StatsPanel (Some d) = Some p \<and> travel_time_text p = Fixed ''0.0''))"
proof (intro conjI impI)
  show "StatsPanel None = None"
    by (simp add: StatsPanel_def)
next
  assume "stats d = None"
  then show "StatsPanel (Some d) = None"
    by (simp add: StatsPanel_def)
next
  assume "stats d = Some st"
  then show "StatsPanel (Some d) \<noteq> None"
    by (simp add: StatsPanel_def Let_def)
next
  assume "stats d = Some st"
  then show "StatsPanel (Some d) = StatsPanel (Some (d\<lparr>stats := Some (fill_missing st)\<rparr>))"
    by (simp add: StatsPanel_def Let_def fill_missing_def)
next
  assume "stats d = Some st \<and> travel_time_hours st = None"
  moreover have "toFixed 1 0 = Fixed ''0.0''"
    by (simp add: toFixed_def digit_def pad_zeros_def)
  ultimately show "\<exists>p. StatsPanel (Some d) = Some p \<and> travel_time_text p = Fixed ''0.0''"
    by (simp add: StatsPanel_def Let_def default0_def)
qed

theorem StatsPanel_missing_fields_witness:
  "StatsPanel (Some (only_total\<lparr>stats := None\<rparr>)) = None
   \<and> StatsPanel (Some only_total) =
      Some \<lparr>travel_time_text = Fixed ''0.0'', total_cost_text = Fixed ''10.00'',
        bars =
          [\<lparr>bar_label = ''Time'', bar_value = Fixed ''0.00'', bar_width = Fin 0,
             bar_color = ''#3b82f6''\<rparr>,
           \<lparr>bar_label = ''Congestion'', bar_value = Fixed ''0.00'', bar_width = Fin 0,
             bar_color = ''#f59e0b''\<rparr>,
           \<lparr>bar_label = ''Emission'', bar_value = Fixed ''0.00'', bar_width = Fin 0,
             bar_color = ''#10b981''\<rparr>,
           \<lparr>bar_label = ''Social'', bar_value = Fixed ''0.00'', bar_width = Fin 0,
             bar_color = ''#8b5cf6''\<rparr>],
        footer = ''Google Maps Route''\<rparr>
   \<and> StatsPanel (Some only_total) =
      StatsPanel (Some (only_total\<lparr>stats := Some (fill_missing (the (stats only_total)))\<rparr>))"
  using StatsPanel_missing_fields [of "only_total\<lparr>stats := None\<rparr>" "the (stats only_total)"]
    StatsPanel_missing_fields [of only_total "the (stats only_total)"]
  by (simp add: only_total_def StatsPanel_def Let_def default0_def CostBar_def toFixed_def
      digit_def pad_zeros_def fill_missing_def)

section \<open>The projection of grid coordinates\<close>

text \<open>Unfolding the exponent search on a numeral, for the evaluation of concrete roundings.\<close>

lemma expo_numeral:
  "expo (numeral k) x =
     (if 2 \<le> x then expo (pred_numeral k) (x / 2) + 1
      else if x < 1 then expo (pred_numeral k) (2 * x) - 1
      else 0)"
  by (simp add: numeral_eq_Suc)

lemma SCALE_value: "SCALE = 5764607523034235 / 2 ^ 60"
  by (simp add: SCALE_def double_round_def rne_def Let_def expo_numeral)

lemma centerLat_value: "centerLat = 7248684337741169 / 2 ^ 47"
  by (simp add: centerLat_def double_round_def rne_def Let_def expo_numeral)

lemma centerLng_value: "centerLng = - (3242591731706757 / 2 ^ 55)"
  by (simp add: centerLng_def double_round_def rne_def Let_def expo_numeral)

lemmas double_eval = double_round_def rne_def Let_def expo_numeral

text \<open>
  The three constants and the projection at the grid points of the examples, as exact
  fractions: the centre \<^verbatim>\<open>getLatLng(0, 0)\<close> is the pair of doubles that print as 51.505
  and -0.09, \<^verbatim>\<open>getLatLng(0, 1)\<close> has latitude 51.510000000000005, and \<^verbatim>\<open>getLatLng(1, 2)\<close>
  is the pair that prints as 51.515 and -0.08499999999999999.
\<close>

lemma getLatLng_0_0: "getLatLng 0 0 = (7248684337741169 / 2 ^ 47, - (3242591731706757 / 2 ^ 55))"
  by (simp add: getLatLng_def fadd_def fmul_def SCALE_value centerLat_value centerLng_value double_eval)

lemma getLatLng_0_1: "getLatLng 0 1 = (3624694012591473 / 2 ^ 46, - (3242591731706757 / 2 ^ 55))"
  by (simp add: getLatLng_def fadd_def fmul_def SCALE_value centerLat_value centerLng_value double_eval)

lemma getLatLng_0_2: "getLatLng 0 2 = (3625045856312361 / 2 ^ 46, - (3242591731706757 / 2 ^ 55))"
  by (simp add: getLatLng_def fadd_def fmul_def SCALE_value centerLat_value centerLng_value double_eval)

lemma getLatLng_1_2: "getLatLng 1 2 = (3625045856312361 / 2 ^ 46, - (3062447746611937 / 2 ^ 55))"
  by (simp add: getLatLng_def fadd_def fmul_def SCALE_value centerLat_value centerLng_value double_eval)

text \<open>
  The error of one rounding: half a unit in the last place, which is at most the
  \<open>2^-53\<close> part of the value, or \<open>2^-1075\<close> among the subnormal numbers.
\<close>

lemma pow2_neg_le_1: "(2::real) powi (- int n) \<le> 1"
  by (simp add: power_int_minus field_simps)

lemma rne_error: "\<bar>of_int (rne t) - t\<bar> \<le> 1 / 2"
proof -
  have "of_int \<lfloor>t\<rfloor> \<le> t" and "t < of_int \<lfloor>t\<rfloor> + 1"
    by linarith+
  then show ?thesis
    by (auto simp: rne_def Let_def)
qed

lemma expo_exact:
  "2 powi (- int n) \<le> x \<Longrightarrow> x < 2 powi (int n + 1) \<Longrightarrow>
   2 powi (expo n x) \<le> x \<and> x < 2 powi (expo n x + 1)"
proof (induction n arbitrary: x)
  case 0
  then show ?case by simp
next
  case (Suc n)
  have up: "(2::real) powi (int n + 1) * 2 = 2 powi (int (Suc n) + 1)"
    by (simp add: power_int_add)
  have down: "(2::real) powi (- int (Suc n)) * 2 = 2 powi (- int n)"
    by (simp add: power_int_diff power_int_minus field_simps)
  have one: "(2::real) powi (- int n) \<le> 1"
    by (rule pow2_neg_le_1)
  have big: "(2::real) \<le> 2 powi (int n + 1)"
    using power_int_increasing [of 1 "int n + 1" "2::real"] by simp
  show ?case
  proof (cases "2 \<le> x")
    case True
    have "2 powi (- int n) \<le> x / 2"
      using True one by simp
    moreover have "x / 2 < 2 powi (int n + 1)"
      using Suc.prems(2) up by simp
    ultimately have ih: "2 powi (expo n (x / 2)) \<le> x / 2 \<and> x / 2 < 2 powi (expo n (x / 2) + 1)"
      by (rule Suc.IH)
    have "(2::real) powi (expo n (x / 2) + 1) = 2 powi (expo n (x / 2)) * 2"
      and "(2::real) powi (expo n (x / 2) + 1 + 1) = 2 powi (expo n (x / 2) + 1) * 2"
      by (simp_all add: power_int_add)
    with ih True show ?thesis
      by simp
  next
    case False
    show ?thesis
    proof (cases "x < 1")
      case True
      have "2 powi (- int n) \<le> 2 * x"
        using Suc.prems(1) down by simp
      moreover have "2 * x < 2 powi (int n + 1)"
        using True big by simp
      ultimately have ih: "2 powi (expo n (2 * x)) \<le> 2 * x \<and> 2 * x < 2 powi (expo n (2 * x) + 1)"
        by (rule Suc.IH)
      have "(2::real) powi (expo n (2 * x)) = 2 powi (expo n (2 * x) - 1) * 2"
        and "(2::real) powi (expo n (2 * x) + 1) = 2 powi (expo n (2 * x)) * 2"
        by (simp_all add: power_int_add power_int_diff)
      with ih True False show ?thesis
        by simp
    next
      case ge: False
      with False show ?thesis
        by simp
    qed
  qed
qed

lemma expo_small: "0 < x \<Longrightarrow> x < 2 powi (- int n) \<Longrightarrow> expo n x = - int n"
proof (induction n arbitrary: x)
  case 0
  then show ?case by simp
next
  case (Suc n)
  have down: "(2::real) powi (- int (Suc n)) * 2 = 2 powi (- int n)"
    by (simp add: power_int_diff power_int_minus field_simps)
  have "(2::real) powi (- int (Suc n)) \<le> 1"
    by (rule pow2_neg_le_1)
  with Suc.prems have "x < 1"
    by linarith
  moreover have "expo n (2 * x) = - int n"
    using Suc.prems down by (intro Suc.IH) simp_all
  ultimately show ?case
    by simp
qed

lemma double_round_error:
  assumes "\<bar>x\<bar> < 2 ^ 1024"
  shows "\<bar>double_round x - x\<bar> \<le> \<bar>x\<bar> / 2 ^ 53 + 1 / 2 ^ 1075"
proof (cases "x = 0")
  case True
  then show ?thesis
    by (simp add: double_round_def)
next
  case False
  define e where "e = max (expo 1100 \<bar>x\<bar>) (- 1022)"
  define u :: real where "u = 2 powi (e - 52)"
  define t where "t = \<bar>x\<bar> / u"
  have u: "0 < u"
    by (simp add: u_def)
  have dr: "double_round x = sgn x * (of_int (rne t) * u)"
    using False by (simp add: double_round_def e_def u_def t_def Let_def)
  have "x = sgn x * (t * u)"
    using u by (simp add: t_def sgn_mult_abs)
  then have "double_round x - x = sgn x * ((of_int (rne t) - t) * u)"
    by (simp add: dr algebra_simps)
  then have "\<bar>double_round x - x\<bar> = \<bar>of_int (rne t) - t\<bar> * u"
    using False u by (simp add: abs_mult abs_sgn_eq)
  also have "\<dots> \<le> 1 / 2 * u"
    using rne_error [of t] u by (intro mult_right_mono) simp_all
  also have "\<dots> = 2 powi e / 2 ^ 53"
    by (simp add: u_def power_int_diff)
  also have "\<dots> \<le> \<bar>x\<bar> / 2 ^ 53 + 1 / 2 ^ 1075"
  proof (cases "expo 1100 \<bar>x\<bar> \<le> - 1022")
    case True
    then have "e = - 1022"
      by (simp add: e_def)
    then have "(2::real) powi e / 2 ^ 53 = 1 / 2 ^ 1075"
      by (simp add: power_int_minus field_simps)
    then show ?thesis
      by simp
  next
    case big: False
    then have e: "e = expo 1100 \<bar>x\<bar>"
      by (simp add: e_def)
    have "\<not> \<bar>x\<bar> < 2 powi (- int 1100)"
      using expo_small [of "\<bar>x\<bar>" 1100] False big by auto
    then have lo: "2 powi (- int 1100) \<le> \<bar>x\<bar>"
      by simp
    have "(2::real) ^ 1024 \<le> 2 powi (int 1100 + 1)"
      using power_int_increasing [of 1024 "int 1100 + 1" "2::real"] by simp
    with assms have hi: "\<bar>x\<bar> < 2 powi (int 1100 + 1)"
      by simp
    from expo_exact [OF lo hi] have "2 powi e \<le> \<bar>x\<bar>"
      by (simp add: e)
    then have "2 powi e / 2 ^ 53 \<le> \<bar>x\<bar> / 2 ^ 53"
      by (simp add: divide_right_mono)
    then show ?thesis
      by simp
  qed
  finally show ?thesis .
qed


lemma double_round_error_small:
  assumes "\<bar>x\<bar> \<le> b" and "b \<le> 128"
  shows "\<bar>double_round x - x\<bar> \<le> (b + 1) / 2 ^ 53"
proof -
  have "(128::real) = 2 ^ 7"
    by simp
  also have "\<dots> < 2 ^ 1024"
    by (rule power_strict_increasing) simp_all
  finally have "\<bar>x\<bar> < 2 ^ 1024"
    using assms by linarith
  then have "\<bar>double_round x - x\<bar> \<le> \<bar>x\<bar> / 2 ^ 53 + 1 / 2 ^ 1075"
    by (rule double_round_error)
  moreover have "(1::real) / 2 ^ 1075 \<le> 1 / 2 ^ 53"
    by (intro divide_left_mono power_increasing) simp_all
  moreover have "\<bar>x\<bar> / 2 ^ 53 \<le> b / 2 ^ 53"
    using assms(1) by (simp add: divide_right_mono)
  ultimately show ?thesis
    by (simp add: add_divide_distrib)
qed

lemma coordinate_error:
  assumes c: "\<bar>c\<bar> \<le> 64" and g: "\<bar>g\<bar> \<le> 1024"
  shows "\<bar>fadd c (fmul g SCALE) - (c + g * SCALE)\<bar> \<le> 1 / 2 ^ 45"
proof -
  have "\<bar>g * SCALE\<bar> = \<bar>g\<bar> * (5764607523034235 / 2 ^ 60)"
    by (simp add: SCALE_value abs_mult)
  also have "\<dots> \<le> 1024 * (5764607523034235 / 2 ^ 60)"
    using g by (intro mult_right_mono) simp_all
  also have "\<dots> \<le> 8"
    by simp
  finally have p: "\<bar>g * SCALE\<bar> \<le> 8" .
  then have e1: "\<bar>fmul g SCALE - g * SCALE\<bar> \<le> (8 + 1) / 2 ^ 53"
    unfolding fmul_def by (rule double_round_error_small) simp
  moreover have "(8 + 1) / 2 ^ 53 \<le> (1::real)"
    by simp
  ultimately have "\<bar>fmul g SCALE\<bar> \<le> 9"
    using p by linarith
  with c have "\<bar>c + fmul g SCALE\<bar> \<le> 73"
    by linarith
  then have e2: "\<bar>fadd c (fmul g SCALE) - (c + fmul g SCALE)\<bar> \<le> (73 + 1) / 2 ^ 53"
    unfolding fadd_def by (rule double_round_error_small) simp
  have "\<bar>fadd c (fmul g SCALE) - (c + g * SCALE)\<bar> \<le>
      \<bar>fadd c (fmul g SCALE) - (c + fmul g SCALE)\<bar> + \<bar>fmul g SCALE - g * SCALE\<bar>"
    by linarith
  also have "\<dots> \<le> (73 + 1) / 2 ^ 53 + (8 + 1) / 2 ^ 53"
    using e1 e2 by (rule add_mono[rotated])
  also have "\<dots> = (74 + 9) / 2 ^ 53"
    by simp
  finally have "\<bar>fadd c (fmul g SCALE) - (c + g * SCALE)\<bar> \<le> (74 + 9) / 2 ^ 53" .
  also have "\<dots> \<le> 1 / 2 ^ 45"
    by simp
  finally show ?thesis .
qed

text \<open>
  C8, as amended. \<^verbatim>\<open>getLatLng\<close> is a function of its two arguments: the double nearest
  to \<open>centerLat + p\<close>, where \<open>p\<close> is the double nearest to \<open>y * SCALE\<close>, and likewise for
  the longitude. The map of the specification, the same formula in exact arithmetic,
  is affine: the offset of the image of a sum from the image of the origin is the sum
  of the two offsets. \<^verbatim>\<open>getLatLng\<close> is that map up to rounding: for grid coordinates of
  magnitude up to 1024 each of its coordinates is within \<open>2^-45\<close> of the exact one.
\<close>

theorem getLatLng_rounded:
  "getLatLng gx gy =
     (double_round (centerLat + double_round (gy * SCALE)),
      double_round (centerLng + double_round (gx * SCALE)))
   \<and> vsub (project (x1 + x2) (y1 + y2)) (project 0 0) =
       vadd (vsub (project x1 y1) (project 0 0)) (vsub (project x2 y2) (project 0 0))
   \<and> (\<bar>gx\<bar> \<le> 1024 \<and> \<bar>gy\<bar> \<le> 1024 \<longrightarrow>
        \<bar>fst (getLatLng gx gy) - fst (project gx gy)\<bar> \<le> 1 / 2 ^ 45
        \<and> \<bar>snd (getLatLng gx gy) - snd (project gx gy)\<bar> \<le> 1 / 2 ^ 45)"
proof (intro conjI impI)
  show "getLatLng gx gy =
     (double_round (centerLat + double_round (gy * SCALE)),
      double_round (centerLng + double_round (gx * SCALE)))"
    by (simp add: getLatLng_def fadd_def fmul_def)
  show "vsub (project (x1 + x2) (y1 + y2)) (project 0 0) =
       vadd (vsub (project x1 y1) (project 0 0)) (vsub (project x2 y2) (project 0 0))"
    by (simp add: project_def vsub_def vadd_def algebra_simps)
next
  assume b: "\<bar>gx\<bar> \<le> 1024 \<and> \<bar>gy\<bar> \<le> 1024"
  have "\<bar>centerLat\<bar> \<le> 64"
    by (simp add: centerLat_value)
  with b have "\<bar>fadd centerLat (fmul gy SCALE) - (centerLat + gy * SCALE)\<bar> \<le> 1 / 2 ^ 45"
    by (intro coordinate_error) simp_all
  then show "\<bar>fst (getLatLng gx gy) - fst (project gx gy)\<bar> \<le> 1 / 2 ^ 45"
    by (simp add: getLatLng_def project_def)
  have "\<bar>centerLng\<bar> \<le> 64"
    by (simp add: centerLng_value)
  with b have "\<bar>fadd centerLng (fmul gx SCALE) - (centerLng + gx * SCALE)\<bar> \<le> 1 / 2 ^ 45"
    by (intro coordinate_error) simp_all
  then show "\<bar>snd (getLatLng gx gy) - snd (project gx gy)\<bar> \<le> 1 / 2 ^ 45"
    by (simp add: getLatLng_def project_def)
qed

theorem getLatLng_rounded_witness:
  "getLatLng 1 2 = (3625045856312361 / 2 ^ 46, - (3062447746611937 / 2 ^ 55))
   \<and> \<bar>fst (getLatLng 1 2) - fst (project 1 2)\<bar> \<le> 1 / 2 ^ 45
   \<and> \<bar>snd (getLatLng 1 2) - snd (project 1 2)\<bar> \<le> 1 / 2 ^ 45"
proof -
  have h: "\<bar>1::real\<bar> \<le> 1024 \<and> \<bar>2::real\<bar> \<le> 1024"
    by simp
  from getLatLng_rounded [of 1 2 1 3 2 4, THEN conjunct2, THEN conjunct2, THEN mp, OF h]
    getLatLng_1_2
  show ?thesis
    by blast
qed

text \<open>
  In the machine's arithmetic the identity fails at \<open>(x1, y1) = (x2, y2) = (0, 1)\<close>: the
  latitude offset of \<^verbatim>\<open>getLatLng(0, 2)\<close> is 0.00999999999999801, and the sum of the two
  offsets of \<^verbatim>\<open>getLatLng(0, 1)\<close> is 0.010000000000005116.
\<close>

theorem additivity_counterexample:
  "vsub_double (getLatLng (fadd 0 0) (fadd 1 1)) (getLatLng 0 0) = (1407374883553 / 2 ^ 47, 0)
   \<and> vadd_double (vsub_double (getLatLng 0 1) (getLatLng 0 0))
        (vsub_double (getLatLng 0 1) (getLatLng 0 0)) = (703687441777 / 2 ^ 46, 0)
   \<and> vsub_double (getLatLng (fadd 0 0) (fadd 1 1)) (getLatLng 0 0) \<noteq>
       vadd_double (vsub_double (getLatLng 0 1) (getLatLng 0 0))
         (vsub_double (getLatLng 0 1) (getLatLng 0 0))"
proof -
  have s: "fadd 0 0 = 0" "fadd 1 1 = 2"
    by (simp_all add: fadd_def double_eval)
  have l: "vsub_double (getLatLng 0 2) (getLatLng 0 0) = (1407374883553 / 2 ^ 47, 0)"
    by (simp add: getLatLng_0_2 getLatLng_0_0 vsub_double_def fsub_def double_eval)
  have d: "vsub_double (getLatLng 0 1) (getLatLng 0 0) = (703687441777 / 2 ^ 47, 0)"
    by (simp add: getLatLng_0_1 getLatLng_0_0 vsub_double_def fsub_def double_eval)
  have r: "vadd_double (703687441777 / 2 ^ 47, 0) (703687441777 / 2 ^ 47, 0) =
      (703687441777 / 2 ^ 46, 0)"
    by (simp add: vadd_double_def fadd_def double_eval)
  show ?thesis
    unfolding s l d r by simp
qed

section \<open>The edges of the grid\<close>

lemma edge_polyline_options:
  "pathOptions (edge_polyline g e) =
     \<lparr>color = fst (emphasis_options (emphasis_of_load (edge_load e))),
      weight = snd (emphasis_options (emphasis_of_load (edge_load e))),
      opacity = 8 / 10, dashArray = None\<rparr>"
  by (cases "edge_load e") (simp_all add: edge_polyline_def emphasis_of_load_def Let_def)

lemma edge_load_nonzero: "capacity e \<noteq> 0 \<Longrightarrow> edge_load e = Fin (current_flow e / capacity e)"
  by (simp add: edge_load_def)

lemma edge_load_zero:
  "capacity e = 0 \<Longrightarrow>
   edge_load e =
     (if 0 < current_flow e then PosInf else if current_flow e < 0 then NegInf else NaN)"
  by (simp add: edge_load_def)

lemma leaflet_edge_lines:
  "MapComponent_leaflet g rdo = Inr v \<Longrightarrow> edge_lines v = map (edge_polyline g) (edges g)"
  by (auto simp: MapComponent_leaflet_def Let_def split: option.splits js_array.splits)

text \<open>
  C7. The colour and the weight of an edge's line are those that the specification's
  policy gives to the edge's load, and to nothing else of the edge: emphasized above
  0.8, intermediate in (0.5, 0.8], baseline otherwise. With a capacity other than zero
  the load is the quotient \<open>current_flow / capacity\<close>.
\<close>

theorem edge_style_by_load:
  "color (pathOptions (edge_polyline g e)) =
     fst (emphasis_options (emphasis_of_load (edge_load e)))
   \<and> weight (pathOptions (edge_polyline g e)) =
     snd (emphasis_options (emphasis_of_load (edge_load e)))
   \<and> (capacity e \<noteq> 0 \<longrightarrow> edge_load e = Fin (current_flow e / capacity e))"
  by (simp add: edge_polyline_options edge_load_nonzero)

theorem edge_style_by_load_witness:
  "pathOptions (edge_polyline grid
      \<lparr>source = ''a'', target = ''b'', capacity = 10, current_flow = 9\<rparr>) =
     \<lparr>color = ''#ef4444'', weight = 4, opacity = 8 / 10, dashArray = None\<rparr>
   \<and> pathOptions (edge_polyline grid
      \<lparr>source = ''a'', target = ''b'', capacity = 10, current_flow = 8\<rparr>) =
     \<lparr>color = ''#f59e0b'', weight = 3, opacity = 8 / 10, dashArray = None\<rparr>
   \<and> pathOptions (edge_polyline grid
      \<lparr>source = ''a'', target = ''b'', capacity = 10, current_flow = 5\<rparr>) =
     \<lparr>color = ''#94a3b8'', weight = 2, opacity = 8 / 10, dashArray = None\<rparr>
   \<and> edge_load \<lparr>source = ''a'', target = ''b'', capacity = 10, current_flow = 9\<rparr> =
     Fin (9 / 10)"
  using
    edge_style_by_load
      [of grid "\<lparr>source = ''a'', target = ''b'', capacity = 10, current_flow = 9\<rparr>"]
    edge_style_by_load
      [of grid "\<lparr>source = ''a'', target = ''b'', capacity = 10, current_flow = 8\<rparr>"]
    edge_style_by_load
      [of grid "\<lparr>source = ''a'', target = ''b'', capacity = 10, current_flow = 5\<rparr>"]
  by (simp add: edge_polyline_def edge_load_def emphasis_of_load_def Let_def)

text \<open>
  C5, as amended. The Leaflet map draws one line for every edge of the graph and skips
  none. For an edge of capacity zero the quotient is still computed: it is positive
  infinity, negative infinity or NaN by the sign of the flow, nothing is thrown, and
  the line is emphasized for a positive flow and baseline otherwise.
\<close>

theorem every_edge_drawn:
  "(MapComponent_leaflet g rdo = Inr v \<longrightarrow>
      edge_lines v = map (edge_polyline g) (edges g)
      \<and> length (edge_lines v) = length (edges g))
   \<and> (capacity e = 0 \<longrightarrow>
        edge_load e =
          (if 0 < current_flow e then PosInf else if current_flow e < 0 then NegInf else NaN)
        \<and> pathOptions (edge_polyline g e) =
          (if 0 < current_flow e
           then \<lparr>color = ''#ef4444'', weight = 4, opacity = 8 / 10, dashArray = None\<rparr>
           else \<lparr>color = ''#94a3b8'', weight = 2, opacity = 8 / 10, dashArray = None\<rparr>))"
proof (intro conjI impI)
  assume v: "MapComponent_leaflet g rdo = Inr v"
  then show "edge_lines v = map (edge_polyline g) (edges g)"
    by (rule leaflet_edge_lines)
  then show "length (edge_lines v) = length (edges g)"
    by simp
next
  assume z: "capacity e = 0"
  then show "edge_load e =
      (if 0 < current_flow e then PosInf else if current_flow e < 0 then NegInf else NaN)"
    by (rule edge_load_zero)
  then show "pathOptions (edge_polyline g e) =
      (if 0 < current_flow e
       then \<lparr>color = ''#ef4444'', weight = 4, opacity = 8 / 10, dashArray = None\<rparr>
       else \<lparr>color = ''#94a3b8'', weight = 2, opacity = 8 / 10, dashArray = None\<rparr>)"
    by (simp add: edge_polyline_options emphasis_of_load_def)
qed

theorem every_edge_drawn_witness:
  "length (edge_lines (projr (MapComponent_leaflet grid None))) = 2
   \<and> edge_load (edges grid ! 0) = PosInf
   \<and> color (pathOptions (edge_polyline grid (edges grid ! 0))) = ''#ef4444''"
  using every_edge_drawn [of grid None "projr (MapComponent_leaflet grid None)" "edges grid ! 0"]
  by (simp add: grid_def MapComponent_leaflet_def Let_def)

text \<open>
  The first edge of the example grid has capacity zero; the map draws it, in the
  emphasized style, from a load of positive infinity.
\<close>

theorem zero_capacity_edge_drawn_counterexample:
  "capacity (edges grid ! 0) = 0
   \<and> MapComponent_leaflet grid None =
       Inr \<lparr>edge_lines =
              [\<lparr>positions = [getLatLng 0 0, getLatLng 1 2],
                pathOptions =
                  \<lparr>color = ''#ef4444'', weight = 4, opacity = 8 / 10, dashArray = None\<rparr>\<rparr>,
               \<lparr>positions = [getLatLng 1 2, getLatLng 0 0],
                pathOptions =
                  \<lparr>color = ''#f59e0b'', weight = 3, opacity = 8 / 10, dashArray = None\<rparr>\<rparr>],
            node_markers =
              [\<lparr>center = getLatLng 0 0, radius = 4, popup = ''a''\<rparr>,
               \<lparr>center = getLatLng 1 2, radius = 4, popup = ''b''\<rparr>],
            route_line = None\<rparr>
   \<and> edge_load (edges grid ! 0) = PosInf"
  by (simp add: grid_def MapComponent_leaflet_def Let_def edge_polyline_def edge_load_def
      getNodePos_def node_marker_def)

section \<open>The route on the map\<close>

lemma getNodePos_unknown:
  assumes "i \<notin> node_id ` set (nodes g)"
  shows "getNodePos g i = (0, 0)"
proof -
  from assms have "find (\<lambda>n. node_id n = i) (nodes g) = None"
    by (auto simp: find_None_iff)
  then show ?thesis
    by (simp add: getNodePos_def)
qed

lemma getNodePos_known:
  assumes "i \<in> node_id ` set (nodes g)"
  shows "\<exists>n \<in> set (nodes g). node_id n = i \<and> getNodePos g i = getLatLng (node_x n) (node_y n)"
proof -
  from assms have "find (\<lambda>n. node_id n = i) (nodes g) \<noteq> None"
    by (auto simp: find_None_iff)
  then obtain n where n: "find (\<lambda>n. node_id n = i) (nodes g) = Some n"
    by blast
  then have "n \<in> set (nodes g)" "node_id n = i"
    by (auto simp: find_Some_iff)
  with n show ?thesis
    by (auto simp: getNodePos_def)
qed

lemma leaflet_route_line:
  "path rd = Arr ids \<Longrightarrow>
   MapComponent_leaflet g (Some rd) =
     Inr \<lparr>edge_lines = map (edge_polyline g) (edges g),
          node_markers = map node_marker (nodes g),
          route_line = Some \<lparr>positions = map (getNodePos g) ids, pathOptions = route_options\<rparr>\<rparr>"
  by (simp add: MapComponent_leaflet_def Let_def route_options_def)

text \<open>
  C4, as amended. The legacy route line has one position for every id of the path, in
  order: the projected position of the node for an id that the graph has, and the
  point (0, 0) for an id that it has not. No id is skipped.
\<close>

theorem route_ids_to_positions:
  "(path rd = Arr ids \<longrightarrow>
      (\<exists>v l. MapComponent_leaflet g (Some rd) = Inr v \<and> route_line v = Some l
         \<and> positions l = map (getNodePos g) ids \<and> length (positions l) = length ids))
   \<and> (i \<in> node_id ` set (nodes g) \<longrightarrow>
        (\<exists>n \<in> set (nodes g). node_id n = i \<and> getNodePos g i = getLatLng (node_x n) (node_y n)))
   \<and> (i \<notin> node_id ` set (nodes g) \<longrightarrow> getNodePos g i = (0, 0))"
proof (intro conjI impI)
  assume "path rd = Arr ids"
  then show "\<exists>v l. MapComponent_leaflet g (Some rd) = Inr v \<and> route_line v = Some l
      \<and> positions l = map (getNodePos g) ids \<and> length (positions l) = length ids"
    by (simp add: leaflet_route_line)
next
  assume "i \<in> node_id ` set (nodes g)"
  then show "\<exists>n \<in> set (nodes g). node_id n = i
      \<and> getNodePos g i = getLatLng (node_x n) (node_y n)"
    by (rule getNodePos_known)
next
  assume "i \<notin> node_id ` set (nodes g)"
  then show "getNodePos g i = (0, 0)"
    by (rule getNodePos_unknown)
qed

theorem route_ids_to_positions_witness:
  "MapComponent_leaflet grid (Some (payload (Arr [''b'', ''zz'']) Missing)) =
     Inr \<lparr>edge_lines = map (edge_polyline grid) (edges grid),
          node_markers = map node_marker (nodes grid),
          route_line = Some \<lparr>positions = [getLatLng 1 2, (0, 0)],
                             pathOptions = route_options\<rparr>\<rparr>
   \<and> getNodePos grid ''b'' = getLatLng 1 2
   \<and> getNodePos grid ''zz'' = (0, 0)"
  using
    route_ids_to_positions
      [of "payload (Arr [''b'', ''zz'']) Missing" "[''b'', ''zz'']" grid "''b''"]
    route_ids_to_positions
      [of "payload (Arr [''b'', ''zz'']) Missing" "[''b'', ''zz'']" grid "''zz''"]
  by (simp add: grid_def payload_def MapComponent_leaflet_def Let_def route_options_def
      getNodePos_def)

text \<open>
  The grid has no node \<^verbatim>\<open>zz\<close>, and the route through \<^verbatim>\<open>a\<close> and \<^verbatim>\<open>zz\<close> is drawn with two
  positions, the second one (0, 0).
\<close>

theorem unresolved_id_counterexample:
  "''zz'' \<notin> node_id ` set (nodes grid)
   \<and> MapComponent_leaflet grid (Some (payload (Arr [''a'', ''zz'']) Missing)) =
       Inr \<lparr>edge_lines = map (edge_polyline grid) (edges grid),
            node_markers = map node_marker (nodes grid),
            route_line = Some \<lparr>positions = [getLatLng 0 0, (0, 0)],
                               pathOptions = route_options\<rparr>\<rparr>"
  by (simp add: grid_def payload_def MapComponent_leaflet_def Let_def route_options_def
      getNodePos_def)

text \<open>
  C2, as amended. The Google Maps variant draws no route and no marker, as without a
  result, when the geometry is absent, not an array or empty, and fits the viewport as
  without a result; it has no branch that throws. The Leaflet variant draws the graph
  and a route line without any position when the path is empty; it throws exactly when
  the path is absent or not an array, whatever the geometry.
\<close>

theorem malformed_route_payload:
  "(geometry rd = Missing \<or> geometry rd = NotArray \<or> geometry rd = Arr [] \<longrightarrow>
      MapComponent_google g (Some rd) = no_route
      \<and> MapComponent_google g (Some rd) = MapComponent_google g None
      \<and> MapBounds_points (nodes g) (Some rd) = MapBounds_points (nodes g) None)
   \<and> (path rd = Arr [] \<longrightarrow>
        MapComponent_leaflet g (Some rd) =
          Inr \<lparr>edge_lines = map (edge_polyline g) (edges g),
               node_markers = map node_marker (nodes g),
               route_line = Some \<lparr>positions = [], pathOptions = route_options\<rparr>\<rparr>)
   \<and> (isl (MapComponent_leaflet g (Some rd)) \<longleftrightarrow> path rd = Missing \<or> path rd = NotArray)"
proof (intro conjI impI)
  assume geo: "geometry rd = Missing \<or> geometry rd = NotArray \<or> geometry rd = Arr []"
  then show "MapComponent_google g (Some rd) = no_route"
    by (auto simp: MapComponent_google_def no_route_def)
  from geo show "MapComponent_google g (Some rd) = MapComponent_google g None"
    by (auto simp: MapComponent_google_def)
  from geo show "MapBounds_points (nodes g) (Some rd) = MapBounds_points (nodes g) None"
    by (auto simp: MapBounds_points_def)
next
  assume "path rd = Arr []"
  then show "MapComponent_leaflet g (Some rd) =
      Inr \<lparr>edge_lines = map (edge_polyline g) (edges g),
           node_markers = map node_marker (nodes g),
           route_line = Some \<lparr>positions = [], pathOptions = route_options\<rparr>\<rparr>"
    by (simp add: leaflet_route_line)
next
  show "isl (MapComponent_leaflet g (Some rd)) \<longleftrightarrow> path rd = Missing \<or> path rd = NotArray"
    by (cases "path rd") (simp_all add: MapComponent_leaflet_def Let_def)
qed

theorem malformed_route_payload_witness:
  "MapComponent_google grid (Some (payload Missing Missing)) = no_route
   \<and> MapComponent_leaflet grid (Some (payload (Arr []) Missing)) =
       Inr \<lparr>edge_lines = map (edge_polyline grid) (edges grid),
            node_markers = map node_marker (nodes grid),
            route_line = Some \<lparr>positions = [], pathOptions = route_options\<rparr>\<rparr>
   \<and> \<not> isl (MapComponent_leaflet grid (Some (payload (Arr []) Missing)))"
  using malformed_route_payload [of "payload Missing Missing" grid]
    malformed_route_payload [of "payload (Arr []) Missing" grid]
  by (simp add: payload_def)

text \<open>
  A payload without geometry and without path: the Leaflet variant throws while
  rendering it.
\<close>

theorem missing_path_counterexample:
  "geometry (payload Missing Missing) = Missing
   \<and> MapComponent_leaflet grid (Some (payload Missing Missing)) =
       Inl (TypeError ''Cannot read properties of undefined (reading map)'')"
  by (simp add: payload_def MapComponent_leaflet_def Let_def)

section \<open>Requests in flight\<close>

lemma step_one_at_a_time:
  assumes "one_at_a_time s"
  shows "one_at_a_time (step s ev)"
proof (cases ev)
  case Click
  show ?thesis
  proof (cases "button_disabled s")
    case True
    with Click assms show ?thesis by simp
  next
    case False
    then have "\<not> loading s" and "startLocation s \<noteq> None" and "endLocation s \<noteq> None"
      by (simp_all add: button_disabled_def)
    with assms have "inflight s = []"
      by (auto simp: one_at_a_time_def)
    with Click False \<open>startLocation s \<noteq> None\<close> \<open>endLocation s \<noteq> None\<close> show ?thesis
      by (auto simp: one_at_a_time_def handleRoute_def)
  qed
next
  case (Settled k outcome)
  show ?thesis
  proof (cases "k \<in> set (inflight s)")
    case False
    with Settled assms show ?thesis
      by (simp add: handleRoute_settled_def)
  next
    case True
    with assms have "inflight s = [k]"
      by (auto simp: one_at_a_time_def)
    with Settled show ?thesis
      by (cases outcome) (simp_all add: handleRoute_settled_def one_at_a_time_def Let_def)
  qed
next
  case (SelectStart l)
  with assms show ?thesis by (simp add: one_at_a_time_def)
next
  case (SelectEnd l)
  with assms show ?thesis by (simp add: one_at_a_time_def)
next
  case (SetTime t)
  with assms show ?thesis by (simp add: one_at_a_time_def)
qed

lemma run_one_at_a_time: "one_at_a_time s \<Longrightarrow> one_at_a_time (run s evs)"
  unfolding run_def
proof (induction evs arbitrary: s)
  case Nil
  then show ?case by simp
next
  case (Cons ev evs)
  from Cons.prems have "one_at_a_time (step s ev)"
    by (rule step_one_at_a_time)
  with Cons show ?case by simp
qed

lemma reachable_one_at_a_time: "one_at_a_time (run initial_ui evs)"
  by (rule run_one_at_a_time) (simp add: one_at_a_time_def initial_ui_def)

lemma settled_result_stored:
  "k \<in> set (inflight s) \<Longrightarrow> routeData (step s (Settled k (Inr res))) = Some res"
  by (simp add: handleRoute_settled_def Let_def)

lemma settled_not_waiting: "k \<notin> set (inflight s) \<Longrightarrow> step s (Settled k outcome) = s"
  by (simp add: handleRoute_settled_def)

text \<open>
  C3. \<^verbatim>\<open>handleRoute\<close> is called by the button only, and the button is disabled while the
  panel is loading. So in every state that the page reaches from its initial state, by
  any sequence of clicks, selections, slider moves and responses in any order: at most
  one request waits for its response, and it is the request issued last; a click while
  it waits issues nothing, so no second request is issued before an earlier one
  resolves; a result that is stored is the result of the request issued last; and no
  response of an earlier request is left to arrive, the route slot never takes one.
\<close>

theorem latest_request_only:
  "length (inflight (run initial_ui evs)) \<le> 1
   \<and> (\<forall>k \<in> set (inflight (run initial_ui evs)). Suc k = issued (run initial_ui evs))
   \<and> (inflight (run initial_ui evs) \<noteq> [] \<longrightarrow>
        step (run initial_ui evs) Click = run initial_ui evs)
   \<and> (k \<in> set (inflight (run initial_ui evs)) \<longrightarrow>
        Suc k = issued (run initial_ui evs)
        \<and> routeData (run initial_ui (evs @ [Settled k (Inr res)])) = Some res)
   \<and> (Suc k \<noteq> issued (run initial_ui evs) \<longrightarrow>
        run initial_ui (evs @ [Settled k outcome]) = run initial_ui evs)"
proof -
  let ?s = "run initial_ui evs"
  have inv: "one_at_a_time ?s"
    by (rule reachable_one_at_a_time)
  have latest: "Suc j = issued ?s" if "j \<in> set (inflight ?s)" for j
    using inv that by (auto simp: one_at_a_time_def)
  have snoc: "run initial_ui (evs @ [ev]) = step ?s ev" for ev
    by (simp add: run_def)
  have "length (inflight ?s) \<le> 1"
    using inv by (auto simp: one_at_a_time_def)
  moreover have "\<forall>j \<in> set (inflight ?s). Suc j = issued ?s"
    using latest by blast
  moreover have "step ?s Click = ?s" if "inflight ?s \<noteq> []"
  proof -
    from inv that have "loading ?s"
      by (simp add: one_at_a_time_def)
    then show ?thesis
      by (simp add: button_disabled_def)
  qed
  moreover have "routeData (run initial_ui (evs @ [Settled k (Inr res)])) = Some res"
    if "k \<in> set (inflight ?s)"
    unfolding snoc using that by (rule settled_result_stored)
  moreover have "run initial_ui (evs @ [Settled k outcome]) = ?s" if "Suc k \<noteq> issued ?s"
  proof -
    from that latest have "k \<notin> set (inflight ?s)"
      by blast
    then show ?thesis
      unfolding snoc by (rule settled_not_waiting)
  qed
  ultimately show ?thesis
    using latest by blast
qed

text \<open>
  Both places chosen, a click, a second click while the first request waits, the
  result of the first request, a third click, the result of the second request: one
  request waits after the two clicks, the slot takes each result as it arrives, and a
  late second answer to request 0 changes nothing.
\<close>

theorem latest_request_only_witness:
  "inflight (run initial_ui [SelectStart place_a, SelectEnd place_b, Click, Click]) = [0]
   \<and> issued (run initial_ui [SelectStart place_a, SelectEnd place_b, Click, Click]) = 1
   \<and> routeData (run initial_ui
        ([SelectStart place_a, SelectEnd place_b, Click, Click] @
         [Settled 0 (Inr (payload (Arr [''first'']) Missing))])) =
       Some (payload (Arr [''first'']) Missing)
   \<and> routeData (run initial_ui
        ([SelectStart place_a, SelectEnd place_b, Click, Click,
          Settled 0 (Inr (payload (Arr [''first'']) Missing)), Click] @
         [Settled 1 (Inr (payload (Arr [''second'']) Missing))])) =
       Some (payload (Arr [''second'']) Missing)
   \<and> run initial_ui
        ([SelectStart place_a, SelectEnd place_b, Click, Click,
          Settled 0 (Inr (payload (Arr [''first'']) Missing)), Click] @
         [Settled 0 (Inr (payload (Arr [''first'']) Missing))]) =
       run initial_ui
        [SelectStart place_a, SelectEnd place_b, Click, Click,
         Settled 0 (Inr (payload (Arr [''first'']) Missing)), Click]"
proof -
  let ?first = "payload (Arr [''first'']) Missing"
  let ?second = "payload (Arr [''second'']) Missing"
  let ?one = "[SelectStart place_a, SelectEnd place_b, Click, Click]"
  let ?two = "[SelectStart place_a, SelectEnd place_b, Click, Click, Settled 0 (Inr ?first), Click]"
  have one: "inflight (run initial_ui ?one) = [0]" "issued (run initial_ui ?one) = 1"
    by (simp_all add: run_def initial_ui_def handleRoute_def button_disabled_def)
  have two: "inflight (run initial_ui ?two) = [1]" "issued (run initial_ui ?two) = 2"
    by (simp_all add: run_def initial_ui_def handleRoute_def handleRoute_settled_def
        button_disabled_def Let_def)
  have "routeData (run initial_ui (?one @ [Settled 0 (Inr ?first)])) = Some ?first"
    using latest_request_only [of ?one 0 ?first "Inr ?first"] one by simp
  moreover have "routeData (run initial_ui (?two @ [Settled 1 (Inr ?second)])) = Some ?second"
    using latest_request_only [of ?two 1 ?second "Inr ?second"] two by simp
  moreover have "run initial_ui (?two @ [Settled 0 (Inr ?first)]) = run initial_ui ?two"
    using latest_request_only [of ?two 0 ?first "Inr ?first"] two by simp
  ultimately show ?thesis
    using one by simp
qed

section \<open>Failed requests\<close>

lemma error_msg_detail:
  "Option.bind (Option.bind (response err) data) detail = Some d \<Longrightarrow> d \<noteq> [] \<Longrightarrow>
   error_msg err = d"
  by (simp add: error_msg_def)

lemma error_msg_message:
  "Option.bind (Option.bind (response err) data) detail = None
   \<or> Option.bind (Option.bind (response err) data) detail = Some [] \<Longrightarrow>
   error_msg err = message err"
  by (auto simp: error_msg_def)

lemma settled_failure:
  assumes "k \<in> set (inflight s)"
  shows "handleRoute_settled k (Inl err) s =
    s\<lparr>inflight := removeAll k (inflight s), console := console s @ [([], err)],
      alerts := alerts s @ [''Error: '' @ error_msg err @ ''. Make sure backend is running.''],
      status := ''Error occurred.'', loading := False\<rparr>"
  using assms by (simp add: handleRoute_settled_def Let_def)

lemma legacy_try_fails:
  "legacy_fails geo1 geo2 post err \<Longrightarrow>
   snd (legacy_try geo1 geo2 post s) = Some err
   \<and> routeData (fst (legacy_try geo1 geo2 post s)) = routeData s
   \<and> alerts (fst (legacy_try geo1 geo2 post s)) = alerts s
   \<and> startAddr (fst (legacy_try geo1 geo2 post s)) = startAddr s
   \<and> endAddr (fst (legacy_try geo1 geo2 post s)) = endAddr s"
  by (auto simp: legacy_fails_def legacy_try_def Let_def
      split: sum.splits option.splits if_splits)

lemma legacy_failure:
  assumes "legacy_fails geo1 geo2 post err"
  shows "routeData (handleRoute_legacy geo1 geo2 post s) = routeData s"
    and "loading (handleRoute_legacy geo1 geo2 post s) = False"
    and "alerts (handleRoute_legacy geo1 geo2 post s) = alerts s @ [''Error: '' @ error_msg err]"
    and "status (handleRoute_legacy geo1 geo2 post s) = ''Error occurred.''"
    and "legacy_button_disabled (handleRoute_legacy geo1 geo2 post s) =
      (startAddr s = [] \<or> endAddr s = [])"
  using legacy_try_fails [OF assms, of "s\<lparr>loading := True, status := ''Geocoding addresses...''\<rparr>"]
  by (auto simp: handleRoute_legacy_def Let_def legacy_button_disabled_def split: prod.splits)

text \<open>
  C6. When a route request fails, in the coordinate-mode panel (the response of a
  waiting request is an error) and in the legacy panel (a geocode call or the route
  call fails), the stored route is the one stored before, the alert shows \<^verbatim>\<open>Error: \<close>
  followed by the message (and, in the coordinate-mode panel, by
  \<^verbatim>\<open>. Make sure backend is running.\<close>), the panel is no longer loading, and the button is
  enabled again as soon as both places or addresses are set. The message is the
  server's detail when the error has a response with data with a non-empty detail, and
  the error's own message when there is no detail.
\<close>

theorem failed_request_handling:
  "(k \<in> set (inflight s) \<longrightarrow>
      routeData (step s (Settled k (Inl err))) = routeData s
      \<and> alerts (step s (Settled k (Inl err))) =
          alerts s @ [''Error: '' @ error_msg err @ ''. Make sure backend is running.'']
      \<and> status (step s (Settled k (Inl err))) = ''Error occurred.''
      \<and> loading (step s (Settled k (Inl err))) = False
      \<and> button_disabled (step s (Settled k (Inl err))) =
          (startLocation s = None \<or> endLocation s = None))
   \<and> (legacy_fails geo1 geo2 post err \<longrightarrow>
        routeData (handleRoute_legacy geo1 geo2 post s) = routeData s
        \<and> alerts (handleRoute_legacy geo1 geo2 post s) = alerts s @ [''Error: '' @ error_msg err]
        \<and> status (handleRoute_legacy geo1 geo2 post s) = ''Error occurred.''
        \<and> loading (handleRoute_legacy geo1 geo2 post s) = False
        \<and> legacy_button_disabled (handleRoute_legacy geo1 geo2 post s) =
            (startAddr s = [] \<or> endAddr s = []))
   \<and> (Option.bind (Option.bind (response err) data) detail = Some d \<and> d \<noteq> [] \<longrightarrow>
        error_msg err = d)
   \<and> (Option.bind (Option.bind (response err) data) detail = None \<longrightarrow>
        error_msg err = message err)"
proof (intro conjI impI)
  assume k: "k \<in> set (inflight s)"
  let ?s' = "step s (Settled k (Inl err))"
  have s': "?s' = s\<lparr>inflight := removeAll k (inflight s), console := console s @ [([], err)],
      alerts := alerts s @ [''Error: '' @ error_msg err @ ''. Make sure backend is running.''],
      status := ''Error occurred.'', loading := False\<rparr>"
    using k by (simp add: settled_failure)
  show "routeData ?s' = routeData s"
    unfolding s' by simp
  show "alerts ?s' = alerts s @ [''Error: '' @ error_msg err @ ''. Make sure backend is running.'']"
    unfolding s' by simp
  show "status ?s' = ''Error occurred.''"
    unfolding s' by simp
  show "loading ?s' = False"
    unfolding s' by simp
  show "button_disabled ?s' = (startLocation s = None \<or> endLocation s = None)"
    unfolding s' by (simp add: button_disabled_def)
next
  assume f: "legacy_fails geo1 geo2 post err"
  show "routeData (handleRoute_legacy geo1 geo2 post s) = routeData s"
    by (rule legacy_failure(1) [OF f])
  show "alerts (handleRoute_legacy geo1 geo2 post s) = alerts s @ [''Error: '' @ error_msg err]"
    by (rule legacy_failure(3) [OF f])
  show "status (handleRoute_legacy geo1 geo2 post s) = ''Error occurred.''"
    by (rule legacy_failure(4) [OF f])
  show "loading (handleRoute_legacy geo1 geo2 post s) = False"
    by (rule legacy_failure(2) [OF f])
  show "legacy_button_disabled (handleRoute_legacy geo1 geo2 post s) =
      (startAddr s = [] \<or> endAddr s = [])"
    by (rule legacy_failure(5) [OF f])
next
  assume "Option.bind (Option.bind (response err) data) detail = Some d \<and> d \<noteq> []"
  then show "error_msg err = d"
    by (simp add: error_msg_detail)
next
  assume "Option.bind (Option.bind (response err) data) detail = None"
  then show "error_msg err = message err"
    by (simp add: error_msg_message)
qed

theorem failed_request_handling_witness:
  "inflight shown_route = [1]
   \<and> routeData shown_route = Some (payload (Arr [''5'', ''7'', ''12'']) Missing)
   \<and> routeData (step shown_route (Settled 1 (Inl server_error))) =
       Some (payload (Arr [''5'', ''7'', ''12'']) Missing)
   \<and> alerts (step shown_route (Settled 1 (Inl server_error))) =
       [''Error: no path found. Make sure backend is running.'']
   \<and> loading (step shown_route (Settled 1 (Inl server_error))) = False
   \<and> button_disabled (step shown_route (Settled 1 (Inl server_error))) = False
   \<and> alerts (handleRoute_legacy (Inr \<lparr>geo_node_id = Some ''5''\<rparr>)
        (Inr \<lparr>geo_node_id = Some ''12''\<rparr>) (Inl network_error) legacy_ui) =
       [''Error: Network Error'']
   \<and> routeData (handleRoute_legacy (Inr \<lparr>geo_node_id = Some ''5''\<rparr>)
        (Inr \<lparr>geo_node_id = Some ''12''\<rparr>) (Inl network_error) legacy_ui) =
       Some (payload (Arr [''5'', ''7'', ''12'']) Missing)
   \<and> legacy_button_disabled (handleRoute_legacy (Inr \<lparr>geo_node_id = Some ''5''\<rparr>)
        (Inr \<lparr>geo_node_id = Some ''12''\<rparr>) (Inl network_error) legacy_ui) = False
   \<and> error_msg server_error = ''no path found''
   \<and> error_msg network_error = ''Network Error''"
proof -
  have sr: "shown_route =
      ready_ui\<lparr>routeData := Some (payload (Arr [''5'', ''7'', ''12'']) Missing),
        loading := True,
        status := ''Downloading map & Computing route... (this may take a moment)'',
        sent := [CoordRoute (loc_lat place_a) (loc_lng place_a) (loc_lat place_b)
                   (loc_lng place_b) 8,
                 CoordRoute (loc_lat place_a) (loc_lng place_a) (loc_lat place_b)
                   (loc_lng place_b) 8],
        inflight := [1], issued := 2\<rparr>"
    by (simp add: shown_route_def ready_ui_def run_def initial_ui_def handleRoute_def
        handleRoute_settled_def button_disabled_def Let_def)
  have k: "1 \<in> set (inflight shown_route)"
    by (simp add: sr)
  have locs: "startLocation shown_route = Some place_a" "endLocation shown_route = Some place_b"
    "alerts shown_route = []"
    by (simp_all add: sr ready_ui_def run_def initial_ui_def)
  have f: "legacy_fails (Inr \<lparr>geo_node_id = Some ''5''\<rparr>) (Inr \<lparr>geo_node_id = Some ''12''\<rparr>)
      (Inl network_error) network_error"
    by (simp add: legacy_fails_def)
  have d: "Option.bind (Option.bind (response server_error) data) detail = Some ''no path found''"
    by (simp add: server_error_def)
  have n: "Option.bind (Option.bind (response network_error) data) detail = None"
    by (simp add: network_error_def)
  have m: "message network_error = ''Network Error''"
    by (simp add: network_error_def)
  have l: "routeData legacy_ui = Some (payload (Arr [''5'', ''7'', ''12'']) Missing)"
    "alerts legacy_ui = []" "startAddr legacy_ui = ''Wall St''" "endAddr legacy_ui = ''Broadway''"
    by (simp_all add: legacy_ui_def initial_ui_def)
  note coord = failed_request_handling
      [of 1 shown_route server_error "Inr \<lparr>geo_node_id = Some ''5''\<rparr>"
        "Inr \<lparr>geo_node_id = Some ''12''\<rparr>" "Inl network_error" "''no path found''"]
  note legacy = failed_request_handling
      [of 1 legacy_ui network_error "Inr \<lparr>geo_node_id = Some ''5''\<rparr>"
        "Inr \<lparr>geo_node_id = Some ''12''\<rparr>" "Inl network_error" "''x''"]
  from coord k
  have c: "routeData (step shown_route (Settled 1 (Inl server_error))) = routeData shown_route"
    "alerts (step shown_route (Settled 1 (Inl server_error))) =
       alerts shown_route @
         [''Error: '' @ error_msg server_error @ ''. Make sure backend is running.'']"
    "loading (step shown_route (Settled 1 (Inl server_error))) = False"
    "button_disabled (step shown_route (Settled 1 (Inl server_error))) =
       (startLocation shown_route = None \<or> endLocation shown_route = None)"
    by simp_all
  from coord d have cd: "error_msg server_error = ''no path found''"
    by blast
  from legacy f
  have g: "routeData (handleRoute_legacy (Inr \<lparr>geo_node_id = Some ''5''\<rparr>)
        (Inr \<lparr>geo_node_id = Some ''12''\<rparr>) (Inl network_error) legacy_ui) = routeData legacy_ui"
    "alerts (handleRoute_legacy (Inr \<lparr>geo_node_id = Some ''5''\<rparr>)
        (Inr \<lparr>geo_node_id = Some ''12''\<rparr>) (Inl network_error) legacy_ui) =
       alerts legacy_ui @ [''Error: '' @ error_msg network_error]"
    "legacy_button_disabled (handleRoute_legacy (Inr \<lparr>geo_node_id = Some ''5''\<rparr>)
        (Inr \<lparr>geo_node_id = Some ''12''\<rparr>) (Inl network_error) legacy_ui) =
       (startAddr legacy_ui = [] \<or> endAddr legacy_ui = [])"
    by simp_all
  from legacy n have gd: "error_msg network_error = message network_error"
    by blast
  have i: "inflight shown_route = [1]"
    "routeData shown_route = Some (payload (Arr [''5'', ''7'', ''12'']) Missing)"
    by (simp_all add: sr)
  show ?thesis
    unfolding c cd g gd i locs l m by simp
qed

section \<open>The layout poll\<close>

lemma fetchGraph_failed: "graph (fetchGraph s (Inl err)) = graph s"
  by (simp add: fetchGraph_def)

lemma fetchGraph_loaded: "graph (fetchGraph s (Inr g)) = g"
  by (simp add: fetchGraph_def)

lemma polls_graph:
  "graph (polls s answers) = (case last_graph answers of None \<Rightarrow> graph s | Some g \<Rightarrow> g)"
  unfolding polls_def
proof (induction answers arbitrary: s)
  case Nil
  then show ?case by simp
next
  case (Cons a as)
  have "graph (foldl fetchGraph (fetchGraph s a) as) =
      (case last_graph as of None \<Rightarrow> graph (fetchGraph s a) | Some g \<Rightarrow> g)"
    by (rule Cons.IH)
  then show ?case
    by (cases a; cases "last_graph as") (simp_all add: fetchGraph_failed fetchGraph_loaded)
qed

text \<open>
  C9. A failed layout poll changes nothing of the page but the console, where the
  failure is logged: the stored graph stays. A successful poll after it stores its
  graph in place of the old one. After any sequence of polls the stored graph is that
  of the last poll that succeeded, or the one stored before if none did.
\<close>

theorem failed_poll_keeps_graph:
  "fetchGraph s (Inl err) = s\<lparr>console := console s @ [(''Failed to load graph'', err)]\<rparr>
   \<and> graph (fetchGraph s (Inl err)) = graph s
   \<and> graph (fetchGraph (fetchGraph s (Inl err)) (Inr g)) = g
   \<and> graph (polls s answers) = (case last_graph answers of None \<Rightarrow> graph s | Some g' \<Rightarrow> g')"
  by (simp add: fetchGraph_def polls_graph)

theorem failed_poll_keeps_graph_witness:
  "graph (fetchGraph (initial_ui\<lparr>graph := grid\<rparr>) (Inl network_error)) = grid
   \<and> graph (fetchGraph (fetchGraph (initial_ui\<lparr>graph := grid\<rparr>) (Inl network_error))
        (Inr \<lparr>nodes = [], edges = []\<rparr>)) = \<lparr>nodes = [], edges = []\<rparr>
   \<and> graph (polls initial_ui [Inr grid, Inl network_error]) = grid"
  using failed_poll_keeps_graph
    [of "initial_ui\<lparr>graph := grid\<rparr>" network_error "\<lparr>nodes = [], edges = []\<rparr>" "[]"]
    failed_poll_keeps_graph
    [of initial_ui network_error grid "[Inr grid, Inl network_error]"]
  by (simp add: fetchGraph_def polls_def)

end
